theory Spec2Isabelle
  imports Main "HOL-Library.Word"
begin

unbundle bit_operations_syntax

section \<open>The target machine\<close>

text \<open>
  \<^verbatim>\<open>BLECyclingGatt.h\<close> is firmware for an AVR board (Arduino, \<^verbatim>\<open>PROGMEM\<close>,
  \<^verbatim>\<open>pgm_read_word\<close>, \<^verbatim>\<open>strnlen_P\<close>). On that target \<^verbatim>\<open>int\<close> and \<^verbatim>\<open>size_t\<close>
  are 16 bits wide, \<^verbatim>\<open>uint32_t\<close> is \<^verbatim>\<open>unsigned long\<close>, and objects are stored
  least significant byte first. Arithmetic on a \<^verbatim>\<open>uint16_t\<close> is therefore done
  modulo \<open>2 ^ 16\<close> and arithmetic on a \<^verbatim>\<open>uint32_t\<close> modulo \<open>2 ^ 32\<close>.
\<close>

type_synonym uint8_t = "8 word"
type_synonym uint16_t = "16 word"
type_synonym uint32_t = "32 word"

section \<open>The line comparator\<close>

text \<open>
  A C string is modelled by the bytes stored at its address. Reading stops at the first
  NUL byte; a list without a NUL byte stands for memory that holds these bytes followed by
  the terminator.
\<close>

text \<open>
  \<^verbatim>\<open>struct ProgmemComparatorState\<close> (lines 25-31). The table pointer is modelled by the
  table it points to: the reference lines, in order.
\<close>

record ProgmemComparatorState =
  is_equal :: bool
  line_number :: uint8_t
  total_lines :: uint8_t
  pgm_entry_table :: "uint8_t list list"

text \<open>
  \<^verbatim>\<open>strnlen_P(s, maxlen)\<close> of avr-libc: the number of bytes before the first NUL, but at
  most \<open>maxlen\<close>.
\<close>

fun strnlen_P :: "uint8_t list \<Rightarrow> nat \<Rightarrow> nat" where
  "strnlen_P s 0 = 0"
| "strnlen_P [] (Suc n) = 0"
| "strnlen_P (c # cs) (Suc n) = (if c = 0 then 0 else Suc (strnlen_P cs n))"

text \<open>
  \<^verbatim>\<open>strncmp_P(s1, s2, n)\<close> of avr-libc: compares at most \<open>n\<close> bytes and stops after a
  NUL byte that both strings share. The result is zero when no difference was found and
  the difference of the first two bytes that differ otherwise (the source only tests it
  against zero).
\<close>

fun strncmp_P :: "uint8_t list \<Rightarrow> uint8_t list \<Rightarrow> nat \<Rightarrow> int" where
  "strncmp_P s1 s2 0 = 0"
| "strncmp_P s1 s2 (Suc n) =
     (let c1 = (case s1 of [] \<Rightarrow> 0 | c # _ \<Rightarrow> c);
          c2 = (case s2 of [] \<Rightarrow> 0 | c # _ \<Rightarrow> c)
      in if c1 \<noteq> c2 then uint c1 - uint c2
         else if c1 = 0 then 0
         else strncmp_P (tl s1) (tl s2) n)"

text \<open>
  \<^verbatim>\<open>string_comparator_callback\<close> (lines 36-70). The result is \<open>None\<close> when the
  call reads the table beyond its last entry, which C leaves undefined. \<^verbatim>\<open>line_len+1\<close>
  is computed in 16 bits. The debug output (lines 48-61 and 64-69) does not touch the
  state and is left out.
\<close>

definition string_comparator_callback ::
  "ProgmemComparatorState \<Rightarrow> uint8_t list \<Rightarrow> uint16_t \<Rightarrow> ProgmemComparatorState option" where
  "string_comparator_callback state linebuf line_len =
     (if line_number state \<ge> total_lines state then Some state
      else if length (pgm_entry_table state) \<le> unat (line_number state) then None
      else
        let next_pgm_line = pgm_entry_table state ! unat (line_number state);
            next_pgm_line_len =
              (of_nat (strnlen_P next_pgm_line (unat (line_len + 1))) :: uint16_t);
            lines_matched = strncmp_P linebuf next_pgm_line (unat line_len)
        in Some (state\<lparr>is_equal :=
                          (is_equal state \<and> line_len = next_pgm_line_len \<and> 0 = lines_matched),
                        line_number := line_number state + 1\<rparr>))"

text \<open>
  Modelled from the spec: the line source of section 6 is not part of the sources. It
  "invokes the ReferenceTableMatcher once per line in order, supplying the raw bytes and
  their length".
\<close>

fun feed_lines ::
  "ProgmemComparatorState \<Rightarrow> (uint8_t list \<times> uint16_t) list \<Rightarrow> ProgmemComparatorState option" where
  "feed_lines state [] = Some state"
| "feed_lines state ((linebuf, line_len) # rest) =
     (case string_comparator_callback state linebuf line_len of
        None \<Rightarrow> None
      | Some state' \<Rightarrow> feed_lines state' rest)"

subsection \<open>What the comparator is meant to decide\<close>

text \<open>The text of a C string: its bytes up to the terminator.\<close>

definition c_str :: "uint8_t list \<Rightarrow> uint8_t list" where
  "c_str s = takeWhile (\<lambda>c. c \<noteq> 0) s"

text \<open>
  Equality of a supplied line with a reference line, in the spec's words: the supplied
  length is the reference line's length and the supplied bytes are the reference bytes.
\<close>

definition line_equals :: "uint8_t list \<Rightarrow> uint8_t list \<Rightarrow> uint16_t \<Rightarrow> bool" where
  "line_equals ref linebuf line_len =
     (unat line_len = length (c_str ref) \<and> take (unat line_len) linebuf = c_str ref)"

fun pair_equals :: "uint8_t list \<times> uint8_t list \<times> uint16_t \<Rightarrow> bool" where
  "pair_equals (ref, linebuf, line_len) = line_equals ref linebuf line_len"

text \<open>
  The reference lines a session compares, each with the supplied line it is compared to:
  the table entries from the next index up to the declared count, as far as lines are
  supplied.
\<close>

definition compared ::
  "ProgmemComparatorState \<Rightarrow> (uint8_t list \<times> uint16_t) list
    \<Rightarrow> (uint8_t list \<times> uint8_t list \<times> uint16_t) list" where
  "compared state lines =
     zip (drop (unat (line_number state))
            (take (unat (total_lines state)) (pgm_entry_table state))) lines"

text \<open>
  A table that the target can hold: it has the declared number of entries
  (\<open>table_declared\<close>), and every line is shorter than 65535 bytes, so that the line and
  its terminator leave room for anything else in the 16-bit address space.
\<close>

definition table_declared :: "ProgmemComparatorState \<Rightarrow> bool" where
  "table_declared state = (unat (total_lines state) \<le> length (pgm_entry_table state))"

definition table_fits :: "ProgmemComparatorState \<Rightarrow> bool" where
  "table_fits state =
     (table_declared state \<and>
      list_all (\<lambda>ref. length (c_str ref) < 65535) (pgm_entry_table state))"

section \<open>The transport\<close>

text \<open>
  The 16-bit UUIDs come from \<^verbatim>\<open>ble_constants.h\<close>, which is not among the sources. They are
  kept as names.
\<close>

datatype uuid16 =
    CYCLING_POWER_SERVICE_UUID
  | CYCLING_POWER_FEATURE_CHAR_UUID
  | CYCLING_POWER_MEASUREMENT_CHAR_UUID
  | SENSOR_LOCATION_CHAR_UUID
  | CYCLING_SPEED_CADENCE_SERVICE_UUID
  | CSC_FEATURE_CHAR_UUID
  | CSC_MEASUREMENT_CHAR_UUID
  | SC_CONTROL_POINT_CHAR_UUID

text \<open>
  \<^verbatim>\<open>BLEDataType_t\<close> and the characteristic property bits of the Adafruit library
  (\<^verbatim>\<open>Adafruit_BLEGatt.h\<close>); the bits are those of the Bluetooth characteristic
  properties field.
\<close>

datatype BLEDataType_t =
    BLE_DATATYPE_AUTO
  | BLE_DATATYPE_STRING
  | BLE_DATATYPE_BYTEARRAY
  | BLE_DATATYPE_INTEGER

definition GATT_CHARS_PROPERTIES_BROADCAST :: uint8_t where
  "GATT_CHARS_PROPERTIES_BROADCAST = 0x01"

definition GATT_CHARS_PROPERTIES_READ :: uint8_t where
  "GATT_CHARS_PROPERTIES_READ = 0x02"

definition GATT_CHARS_PROPERTIES_WRITE_WO_RESP :: uint8_t where
  "GATT_CHARS_PROPERTIES_WRITE_WO_RESP = 0x04"

definition GATT_CHARS_PROPERTIES_WRITE :: uint8_t where
  "GATT_CHARS_PROPERTIES_WRITE = 0x08"

definition GATT_CHARS_PROPERTIES_NOTIFY :: uint8_t where
  "GATT_CHARS_PROPERTIES_NOTIFY = 0x10"

definition GATT_CHARS_PROPERTIES_INDICATE :: uint8_t where
  "GATT_CHARS_PROPERTIES_INDICATE = 0x20"

text \<open>
  The transport behind \<^verbatim>\<open>gatt_\<close> is the Adafruit library, an external collaborator
  (section 6 of the spec: \<^verbatim>\<open>declare_service\<close>, \<^verbatim>\<open>declare_characteristic\<close>,
  \<^verbatim>\<open>write_characteristic\<close>). Its model records every call in order and answers call
  number \<open>k\<close> with \<open>handle_reply k\<close> (a declaration) or \<open>write_reply k\<close> (a write), so
  that every pattern of answers is covered. The description and the presentation format
  of a characteristic are null in every call of the source and are not recorded.
\<close>

datatype gatt_call =
    AddService uuid16
  | AddCharacteristic uuid16 uint8_t uint8_t uint8_t BLEDataType_t
  | SetChar uint8_t "uint8_t list"

record Adafruit_BLEGatt =
  calls :: "gatt_call list"
  handle_reply :: "nat \<Rightarrow> uint8_t"
  write_reply :: "nat \<Rightarrow> bool"

definition addService :: "Adafruit_BLEGatt \<Rightarrow> uuid16 \<Rightarrow> uint8_t \<times> Adafruit_BLEGatt" where
  "addService g uuid =
     (handle_reply g (length (calls g)), g\<lparr>calls := calls g @ [AddService uuid]\<rparr>)"

definition addCharacteristic ::
  "Adafruit_BLEGatt \<Rightarrow> uuid16 \<Rightarrow> uint8_t \<Rightarrow> uint8_t \<Rightarrow> uint8_t \<Rightarrow> BLEDataType_t
    \<Rightarrow> uint8_t \<times> Adafruit_BLEGatt" where
  "addCharacteristic g uuid properties min_len max_len datatype =
     (handle_reply g (length (calls g)),
      g\<lparr>calls := calls g @ [AddCharacteristic uuid properties min_len max_len datatype]\<rparr>)"

definition setChar ::
  "Adafruit_BLEGatt \<Rightarrow> uint8_t \<Rightarrow> uint8_t list \<Rightarrow> bool \<times> Adafruit_BLEGatt" where
  "setChar g charID data =
     (write_reply g (length (calls g)), g\<lparr>calls := calls g @ [SetChar charID data]\<rparr>)"

section \<open>The class \<^verbatim>\<open>BLECyclingPower\<close>\<close>

text \<open>
  The members of lines 88-102. The logger is modelled by the lines it has printed.
\<close>

record BLECyclingPower =
  gatt :: Adafruit_BLEGatt
  logger :: "string list"
  cp_service_id :: uint8_t
  cp_feature_id :: uint8_t
  cp_measurement_id :: uint8_t
  cp_sensor_location_id :: uint8_t
  csc_service_id :: uint8_t
  csc_feature_id :: uint8_t
  csc_measurement_id :: uint8_t
  csc_sensor_location_id :: uint8_t
  sc_control_point_id :: uint8_t

definition println :: "BLECyclingPower \<Rightarrow> string \<Rightarrow> BLECyclingPower" where
  "println self msg = self\<lparr>logger := logger self @ [msg]\<rparr>"

subsection \<open>Declaring the services\<close>

text \<open>
  \<^verbatim>\<open>setup_cycling_power_feature\<close> (lines 167-203). The message of the third
  characteristic is the one the source prints (line 200).
\<close>

definition setup_cycling_power_feature :: "BLECyclingPower \<Rightarrow> BLECyclingPower" where
  "setup_cycling_power_feature self0 =
     (let (id, g) = addService (gatt self0) CYCLING_POWER_SERVICE_UUID;
          self = self0\<lparr>gatt := g, cp_service_id := id\<rparr>;
          self = (if cp_service_id self = 0
                  then println self ''Could not add the service CYCLING_POWER_SERVICE_UUID''
                  else self);
          (id, g) = addCharacteristic (gatt self) CYCLING_POWER_FEATURE_CHAR_UUID
                      GATT_CHARS_PROPERTIES_READ 4 4 BLE_DATATYPE_AUTO;
          self = self\<lparr>gatt := g, cp_feature_id := id\<rparr>;
          self = (if cp_feature_id self = 0
                  then println self
                         ''Could not add Characteristic CYCLING_POWER_FEATURE_CHAR_UUID''
                  else self);
          (id, g) = addCharacteristic (gatt self) CYCLING_POWER_MEASUREMENT_CHAR_UUID
                      (GATT_CHARS_PROPERTIES_READ OR GATT_CHARS_PROPERTIES_NOTIFY) 4 8
                      BLE_DATATYPE_AUTO;
          self = self\<lparr>gatt := g, cp_measurement_id := id\<rparr>;
          self = (if cp_measurement_id self = 0
                  then println self
                         ''Could not add Characteristic CYCLING_POWER_MEASUREMENT_CHAR_UUID''
                  else self);
          (id, g) = addCharacteristic (gatt self) SENSOR_LOCATION_CHAR_UUID
                      GATT_CHARS_PROPERTIES_READ 1 1 BLE_DATATYPE_AUTO;
          self = self\<lparr>gatt := g, cp_sensor_location_id := id\<rparr>;
          self = (if cp_sensor_location_id self = 0
                  then println self
                         ''Could not add Characteristic CYCLING_POWER_MEASUREMENT_CHAR_UUID''
                  else self)
      in self)"

text \<open>
  \<^verbatim>\<open>setup_cycling_speed_cadence_feature\<close> (lines 205-243). The last two calls pass
  \<^verbatim>\<open>NULL\<close> for the data type, which is the value 0 of the enumeration.
\<close>

definition setup_cycling_speed_cadence_feature :: "BLECyclingPower \<Rightarrow> BLECyclingPower" where
  "setup_cycling_speed_cadence_feature self0 =
     (let (id, g) = addService (gatt self0) CYCLING_SPEED_CADENCE_SERVICE_UUID;
          self = self0\<lparr>gatt := g, csc_service_id := id\<rparr>;
          self = (if csc_service_id self = 0
                  then println self
                         ''Could not add the service CYCLING_SPEED_CADENCE_SERVICE_UUID''
                  else self);
          (id, g) = addCharacteristic (gatt self) CSC_FEATURE_CHAR_UUID
                      GATT_CHARS_PROPERTIES_READ 2 2 BLE_DATATYPE_AUTO;
          self = self\<lparr>gatt := g, csc_feature_id := id\<rparr>;
          self = (if csc_feature_id self = 0
                  then println self ''Could not add the characteristic CSC_FEATURE_CHAR_UUID''
                  else self);
          (id, g) = addCharacteristic (gatt self) CSC_MEASUREMENT_CHAR_UUID
                      GATT_CHARS_PROPERTIES_NOTIFY 11 11 BLE_DATATYPE_AUTO;
          self = self\<lparr>gatt := g, csc_measurement_id := id\<rparr>;
          self = (if csc_measurement_id self = 0
                  then println self
                         ''Could not add the characteristic CSC_MEASUREMENT_CHAR_UUID''
                  else self);
          (id, g) = addCharacteristic (gatt self) SENSOR_LOCATION_CHAR_UUID
                      GATT_CHARS_PROPERTIES_READ 1 1 BLE_DATATYPE_AUTO;
          self = self\<lparr>gatt := g, csc_sensor_location_id := id\<rparr>;
          self = (if csc_sensor_location_id self = 0
                  then println self
                         ''Could not add the characteristic SENSOR_LOCATION_CHAR_UUID''
                  else self);
          (id, g) = addCharacteristic (gatt self) SC_CONTROL_POINT_CHAR_UUID
                      (GATT_CHARS_PROPERTIES_WRITE OR GATT_CHARS_PROPERTIES_INDICATE) 1 5
                      BLE_DATATYPE_AUTO;
          self = self\<lparr>gatt := g, sc_control_point_id := id\<rparr>;
          self = (if sc_control_point_id self = 0
                  then println self
                         ''Could not add the characteristic SC_CONTROL_POINT_CHAR_UUID''
                  else self)
      in self)"

subsection \<open>Encoding the measurements\<close>

text \<open>
  The object representation of the integers on the target, least significant byte first,
  as \<^verbatim>\<open>memcpy\<close> reads it.
\<close>

definition bytes_of_uint16 :: "uint16_t \<Rightarrow> uint8_t list" where
  "bytes_of_uint16 v = [ucast v, ucast (drop_bit 8 v)]"

definition bytes_of_uint32 :: "uint32_t \<Rightarrow> uint8_t list" where
  "bytes_of_uint32 v =
     [ucast v, ucast (drop_bit 8 v), ucast (drop_bit 16 v), ucast (drop_bit 24 v)]"

fun memcpy :: "uint8_t list \<Rightarrow> nat \<Rightarrow> uint8_t list \<Rightarrow> uint8_t list" where
  "memcpy buffer base [] = buffer"
| "memcpy buffer base (b # bs) = memcpy (buffer[base := b]) (Suc base) bs"

text \<open>
  The macro \<^verbatim>\<open>APPEND_BUFFER(buffer,base,field)\<close> (lines 20-22); \<^verbatim>\<open>base\<close> is a
  \<^verbatim>\<open>uint8_t\<close>. The field is given by its bytes.
\<close>

definition APPEND_BUFFER ::
  "uint8_t list \<times> uint8_t \<Rightarrow> uint8_t list \<Rightarrow> uint8_t list \<times> uint8_t" where
  "APPEND_BUFFER s field =
     (case s of (buffer, base) \<Rightarrow>
        (memcpy buffer (unat base) field, base + of_nat (length field)))"

text \<open>
  Modelled from the spec: the flag constants of \<^verbatim>\<open>ble_constants.h\<close> are not among the
  sources. The spec gives the flags word of the Power payload as \<open>0x0020\<close>
  ("accumulated-energy-present bit") and the flags byte of the Speed/Cadence payload as
  \<open>0x03\<close> ("wheel+crank bits set"); the wheel bit is bit 0 and the crank bit is bit 1 of
  the measurement format that the source cites.
\<close>

definition CPM_ACCUMULATED_ENERGY_PRESENT :: uint16_t where
  "CPM_ACCUMULATED_ENERGY_PRESENT = 0x0020"

definition CSCM_WHEEL_REV_DATA_PRESENT :: uint8_t where
  "CSCM_WHEEL_REV_DATA_PRESENT = 0x01"

definition CSCM_CRANK_REV_DATA_PRESENT :: uint8_t where
  "CSCM_CRANK_REV_DATA_PRESENT = 0x02"

text \<open>\<^verbatim>\<open>handle_sc_control_point\<close> (lines 317-326) returns at once.\<close>

definition handle_sc_control_point :: "BLECyclingPower \<Rightarrow> BLECyclingPower" where
  "handle_sc_control_point self = self"

text \<open>
  \<^verbatim>\<open>update\<close> (lines 246-315). \<^verbatim>\<open>update_cp\<close> and \<^verbatim>\<open>update_csc\<close> are the constant
  \<^verbatim>\<open>true\<close>, so both blocks run. The one buffer \<^verbatim>\<open>data\<close> serves both payloads; each
  write hands its first \<^verbatim>\<open>base\<close> bytes to the transport. The products
  \<^verbatim>\<open>last_wheel_rev_timestamp_ms * 128\<close> and \<^verbatim>\<open>last_crank_rev_timestamp_ms * 128\<close> are
  \<^verbatim>\<open>uint32_t\<close> products.
\<close>

definition update ::
  "BLECyclingPower \<Rightarrow> uint16_t \<Rightarrow> uint32_t \<Rightarrow> uint32_t \<Rightarrow> uint32_t \<Rightarrow> uint16_t \<Rightarrow> uint16_t
    \<Rightarrow> bool \<times> BLECyclingPower" where
  "update self crank_revs last_crank_rev_timestamp_ms wheel_revs last_wheel_rev_timestamp_ms
      power_watts0 total_energy_kj =
     (let data = replicate 11 (0 :: uint8_t);
          flags = CPM_ACCUMULATED_ENERGY_PRESENT;
          s = APPEND_BUFFER (data, 0) (bytes_of_uint16 flags);
          power_watts = (if power_watts0 > 0x7FFF then 0x7FFF else power_watts0);
          s = APPEND_BUFFER s (bytes_of_uint16 power_watts);
          s = APPEND_BUFFER s (bytes_of_uint16 total_energy_kj);
          (data, base) = s;
          (cpm_success, g) = setChar (gatt self) (cp_measurement_id self) (take (unat base) data);
          self = self\<lparr>gatt := g\<rparr>;
          csc_flags = CSCM_WHEEL_REV_DATA_PRESENT OR CSCM_CRANK_REV_DATA_PRESENT;
          s = APPEND_BUFFER (data, 0) [csc_flags];
          s = APPEND_BUFFER s (bytes_of_uint32 wheel_revs);
          last_wheel_event_time_csc =
            (ucast ((last_wheel_rev_timestamp_ms * 128) div 125) :: uint16_t);
          s = APPEND_BUFFER s (bytes_of_uint16 last_wheel_event_time_csc);
          s = APPEND_BUFFER s (bytes_of_uint16 crank_revs);
          last_crank_event_time =
            (ucast ((last_crank_rev_timestamp_ms * 128) div 125) :: uint16_t);
          s = APPEND_BUFFER s (bytes_of_uint16 last_crank_event_time);
          (data, base) = s;
          (csc_success, g) = setChar (gatt self) (csc_measurement_id self) (take (unat base) data);
          self = self\<lparr>gatt := g\<rparr>;
          self = handle_sc_control_point self
      in (cpm_success \<and> csc_success, self))"

section \<open>Observing and decoding\<close>

text \<open>The transport calls made between two states of the object.\<close>

definition issued :: "BLECyclingPower \<Rightarrow> BLECyclingPower \<Rightarrow> gatt_call list" where
  "issued before after = drop (length (calls (gatt before))) (calls (gatt after))"

fun payload :: "gatt_call \<Rightarrow> uint8_t list" where
  "payload (SetChar charID data) = data"
| "payload (AddService uuid) = []"
| "payload (AddCharacteristic uuid properties min_len max_len datatype) = []"

text \<open>The bytes that one update cycle writes first and second.\<close>

definition power_payload ::
  "BLECyclingPower \<Rightarrow> uint16_t \<Rightarrow> uint32_t \<Rightarrow> uint32_t \<Rightarrow> uint32_t \<Rightarrow> uint16_t \<Rightarrow> uint16_t
    \<Rightarrow> uint8_t list" where
  "power_payload self crank_revs last_crank_ms wheel_revs last_wheel_ms power_watts energy_kj =
     payload (issued self (snd (update self crank_revs last_crank_ms wheel_revs last_wheel_ms
                                  power_watts energy_kj)) ! 0)"

definition csc_payload ::
  "BLECyclingPower \<Rightarrow> uint16_t \<Rightarrow> uint32_t \<Rightarrow> uint32_t \<Rightarrow> uint32_t \<Rightarrow> uint16_t \<Rightarrow> uint16_t
    \<Rightarrow> uint8_t list" where
  "csc_payload self crank_revs last_crank_ms wheel_revs last_wheel_ms power_watts energy_kj =
     payload (issued self (snd (update self crank_revs last_crank_ms wheel_revs last_wheel_ms
                                  power_watts energy_kj)) ! 1)"

text \<open>
  A receiver's reading of the wire format: fields are little-endian, at a byte offset.
\<close>

definition read_uint16 :: "uint8_t list \<Rightarrow> nat \<Rightarrow> uint16_t" where
  "read_uint16 p i = ucast (p ! i) OR push_bit 8 (ucast (p ! (i + 1)))"

definition read_uint32 :: "uint8_t list \<Rightarrow> nat \<Rightarrow> uint32_t" where
  "read_uint32 p i =
     ucast (p ! i) OR push_bit 8 (ucast (p ! (i + 1)))
       OR push_bit 16 (ucast (p ! (i + 2))) OR push_bit 24 (ucast (p ! (i + 3)))"

text \<open>The access properties that a properties byte grants, by name.\<close>

datatype access = Broadcast | Read | WriteWithoutResponse | Write | Notify | Indicate

definition granted :: "uint8_t \<Rightarrow> access list" where
  "granted properties =
     (if properties AND GATT_CHARS_PROPERTIES_BROADCAST \<noteq> 0 then [Broadcast] else []) @
     (if properties AND GATT_CHARS_PROPERTIES_READ \<noteq> 0 then [Read] else []) @
     (if properties AND GATT_CHARS_PROPERTIES_WRITE_WO_RESP \<noteq> 0
      then [WriteWithoutResponse] else []) @
     (if properties AND GATT_CHARS_PROPERTIES_WRITE \<noteq> 0 then [Write] else []) @
     (if properties AND GATT_CHARS_PROPERTIES_NOTIFY \<noteq> 0 then [Notify] else []) @
     (if properties AND GATT_CHARS_PROPERTIES_INDICATE \<noteq> 0 then [Indicate] else [])"

section \<open>Concrete inputs\<close>

text \<open>
  The reference table \<open>["AAA", "BB", "C"]\<close> of the spec's testable property 5, and a
  comparison session at its start: verdict true, next index 0, all three lines declared.
\<close>

definition reference_table :: "uint8_t list list" where
  "reference_table = [[0x41, 0x41, 0x41], [0x42, 0x42], [0x43]]"

definition session_start :: ProgmemComparatorState where
  "session_start =
     \<lparr>is_equal = True, line_number = 0, total_lines = 3, pgm_entry_table = reference_table\<rparr>"

text \<open>
  An object before bring-up, on a transport that has seen no call yet and will answer as
  the two functions say.
\<close>

definition powered_on :: "(nat \<Rightarrow> uint8_t) \<Rightarrow> (nat \<Rightarrow> bool) \<Rightarrow> BLECyclingPower" where
  "powered_on handles writes =
     \<lparr>gatt = \<lparr>calls = [], handle_reply = handles, write_reply = writes\<rparr>,
      logger = [],
      cp_service_id = 0, cp_feature_id = 0, cp_measurement_id = 0, cp_sensor_location_id = 0,
      csc_service_id = 0, csc_feature_id = 0, csc_measurement_id = 0,
      csc_sensor_location_id = 0, sc_control_point_id = 0\<rparr>"

text \<open>
  The same object on a transport that answers the next write with \<open>first\<close> and every
  later one with \<open>second\<close>.
\<close>

definition answering_writes :: "bool \<Rightarrow> bool \<Rightarrow> BLECyclingPower \<Rightarrow> BLECyclingPower" where
  "answering_writes first second self =
     self\<lparr>gatt := (gatt self)\<lparr>write_reply :=
        (\<lambda>k. if k = length (calls (gatt self)) then first else second)\<rparr>\<rparr>"

section \<open>Properties of the line comparator\<close>

subsection \<open>The library functions\<close>

lemma strnlen_P_c_str: "strnlen_P s n = min (length (c_str s)) n"
  by (induction s n rule: strnlen_P.induct) (simp_all add: c_str_def)

lemma strncmp_P_c_str:
  "strncmp_P linebuf ref (length (c_str ref)) = 0
     \<longleftrightarrow> take (length (c_str ref)) linebuf = c_str ref"
proof (induction ref arbitrary: linebuf)
  case Nil
  show ?case by (simp add: c_str_def)
next
  case (Cons c cs)
  show ?case
  proof (cases "c = 0")
    case True
    then show ?thesis by (simp add: c_str_def)
  next
    case False
    have len: "length (c_str (c # cs)) = Suc (length (c_str cs))"
      and str: "c_str (c # cs) = c # c_str cs"
      using False by (simp_all add: c_str_def)
    show ?thesis
    proof (cases linebuf)
      case Nil
      then show ?thesis using False by (simp add: len str uint_0_iff)
    next
      case (Cons d ds)
      show ?thesis
      proof (cases "d = c")
        case True
        then show ?thesis
          using False Cons.IH [of ds] by (simp add: len str Cons)
      next
        case False
        then have "uint d \<noteq> uint c" by (simp add: word_uint_eq_iff)
        with False show ?thesis by (simp add: len str Cons)
      qed
    qed
  qed
qed

lemma length_test:
  fixes line_len :: uint16_t
  assumes "L < 65535"
  shows "line_len = of_nat (min L (unat (line_len + 1))) \<longleftrightarrow> unat line_len = L"
proof (cases "line_len + 1 = 0")
  case True
  then have "line_len = - 1" by (simp add: eq_neg_iff_add_eq_0)
  moreover have "(- 1 :: uint16_t) = 65535" by simp
  ultimately have "unat line_len = 65535" by simp
  with True assms show ?thesis by auto
next
  case False
  then have suc: "unat (line_len + 1) = Suc (unat line_len)"
    using unatSuc [of line_len] by (simp add: add.commute)
  have bound: "unat line_len < 65536"
    using unsigned_less [of line_len, where ?'a = nat] by simp
  let ?m = "min L (Suc (unat line_len))"
  have "?m < 2 ^ LENGTH(16)" using assms by simp
  then have "unat (of_nat ?m :: uint16_t) = ?m"
    by (simp add: unat_of_nat)
  then have "line_len = of_nat ?m \<longleftrightarrow> unat line_len = ?m"
    by (simp add: word_unat_eq_iff)
  also have "\<dots> \<longleftrightarrow> unat line_len = L" by auto
  finally show ?thesis by (simp add: suc)
qed

lemma next_line_number:
  fixes i m :: uint8_t
  assumes "i < m"
  shows "unat (i + 1) = Suc (unat i)"
proof -
  have "i \<noteq> - 1" using assms by (metis word_order.extremum_strict)
  then have "1 + i \<noteq> 0" by (simp add: eq_neg_iff_add_eq_0 add.commute)
  then show ?thesis using unatSuc [of i] by (simp add: add.commute)
qed

lemma tests_agree:
  assumes "length (c_str ref) < 65535"
  shows "(line_len = (of_nat (strnlen_P ref (unat (line_len + 1))) :: uint16_t)
            \<and> 0 = strncmp_P linebuf ref (unat line_len))
         \<longleftrightarrow> line_equals ref linebuf line_len"
proof (cases "unat line_len = length (c_str ref)")
  case True
  then show ?thesis
    using strncmp_P_c_str [of linebuf ref] length_test [OF assms, of line_len]
    by (auto simp: line_equals_def strnlen_P_c_str)
next
  case False
  then show ?thesis
    using length_test [OF assms, of line_len]
    by (simp add: line_equals_def strnlen_P_c_str)
qed

lemma callback_below_total:
  assumes "line_number state < total_lines state" and "table_fits state"
  shows "string_comparator_callback state linebuf line_len =
           Some (state\<lparr>is_equal :=
                   (is_equal state \<and>
                    line_equals (pgm_entry_table state ! unat (line_number state))
                      linebuf line_len),
                 line_number := line_number state + 1\<rparr>)"
proof -
  let ?ref = "pgm_entry_table state ! unat (line_number state)"
  have "unat (line_number state) < unat (total_lines state)"
    using assms(1) by (simp add: word_less_nat_alt)
  then have inside: "unat (line_number state) < length (pgm_entry_table state)"
    using assms(2) by (simp add: table_fits_def table_declared_def)
  then have "?ref \<in> set (pgm_entry_table state)" by simp
  then have "length (c_str ?ref) < 65535"
    using assms(2) by (simp add: table_fits_def list_all_iff)
  from tests_agree [OF this, of line_len linebuf] inside assms(1)
  show ?thesis
    by (simp add: string_comparator_callback_def Let_def not_le)
qed

lemma callback_at_total:
  "total_lines state \<le> line_number state \<Longrightarrow>
     string_comparator_callback state linebuf line_len = Some state"
  by (simp add: string_comparator_callback_def)


text \<open>
  The bound on the reference lines in \<open>table_fits\<close> is what the 16-bit sum
  \<^verbatim>\<open>line_len+1\<close> needs: for \<^verbatim>\<open>line_len\<close> = 65535 the sum is 0, the measured
  reference length is 0, and the call sets the verdict to false whatever the bytes are.
  A line of that length does not fit the memory of the target.
\<close>

lemma callback_at_65535:
  assumes "line_number state < total_lines state" and "table_declared state"
  shows "\<exists>state'. string_comparator_callback state linebuf 65535 = Some state'
           \<and> \<not> is_equal state'"
proof -
  have "unat (line_number state) < unat (total_lines state)"
    using assms(1) by (simp add: word_less_nat_alt)
  then have "unat (line_number state) < length (pgm_entry_table state)"
    using assms(2) by (simp add: table_declared_def)
  moreover have "\<not> total_lines state \<le> line_number state"
    using assms(1) by simp
  ultimately show ?thesis
    by (simp add: string_comparator_callback_def Let_def)
qed

lemma compared_at_total:
  "total_lines state \<le> line_number state \<Longrightarrow> compared state lines = []"
  by (simp add: compared_def word_le_nat_alt)

lemma compared_below_total:
  assumes "line_number state < total_lines state" and "table_declared state"
    and "total_lines state' = total_lines state"
    and "pgm_entry_table state' = pgm_entry_table state"
    and "line_number state' = line_number state + 1"
  shows "compared state ((linebuf, line_len) # rest) =
           (pgm_entry_table state ! unat (line_number state), linebuf, line_len)
             # compared state' rest"
proof -
  let ?n = "unat (line_number state)"
  let ?t = "take (unat (total_lines state)) (pgm_entry_table state)"
  have below: "?n < unat (total_lines state)"
    using assms(1) by (simp add: word_less_nat_alt)
  then have "?n < length ?t"
    using assms(2) by (simp add: table_declared_def)
  then have "drop ?n ?t = ?t ! ?n # drop (Suc ?n) ?t"
    by (rule Cons_nth_drop_Suc [symmetric])
  moreover have "?t ! ?n = pgm_entry_table state ! ?n"
    using below by simp
  moreover have "unat (line_number state') = Suc ?n"
    using assms(1,5) by (simp add: next_line_number)
  ultimately show ?thesis
    using assms(3,4) by (simp add: compared_def)
qed

lemma feed_lines_result:
  assumes "table_fits state"
  shows "\<exists>state'. feed_lines state lines = Some state'
           \<and> is_equal state' = (is_equal state \<and> list_all pair_equals (compared state lines))
           \<and> unat (line_number state') =
               (if total_lines state \<le> line_number state then unat (line_number state)
                else min (unat (line_number state) + length lines) (unat (total_lines state)))
           \<and> total_lines state' = total_lines state
           \<and> pgm_entry_table state' = pgm_entry_table state"
  using assms
proof (induction lines arbitrary: state)
  case Nil
  then show ?case by (simp add: compared_def word_le_nat_alt not_le word_less_nat_alt)
next
  case (Cons line rest)
  obtain linebuf line_len where line: "line = (linebuf, line_len)"
    by (cases line)
  show ?case
  proof (cases "total_lines state \<le> line_number state")
    case True
    then show ?thesis
      using Cons.IH [OF Cons.prems]
      by (simp add: line callback_at_total compared_at_total)
  next
    case False
    then have below: "line_number state < total_lines state" by simp
    let ?ref = "pgm_entry_table state ! unat (line_number state)"
    let ?next = "state\<lparr>is_equal := (is_equal state \<and> line_equals ?ref linebuf line_len),
                       line_number := line_number state + 1\<rparr>"
    have step: "string_comparator_callback state linebuf line_len = Some ?next"
      using below Cons.prems by (rule callback_below_total)
    have fits: "table_fits ?next"
      using Cons.prems by (simp add: table_fits_def table_declared_def)
    have cmp: "compared state (line # rest) = (?ref, linebuf, line_len) # compared ?next rest"
      unfolding line
      using below Cons.prems
      by (intro compared_below_total) (simp_all add: table_fits_def)
    have suc: "unat (line_number state + 1) = Suc (unat (line_number state))"
      using below by (rule next_line_number)
    have lt: "unat (line_number state) < unat (total_lines state)"
      using below by (simp add: word_less_nat_alt)
    from Cons.IH [OF fits] obtain state' where
      run: "feed_lines ?next rest = Some state'"
      and verdict: "is_equal state' =
          (is_equal ?next \<and> list_all pair_equals (compared ?next rest))"
      and index: "unat (line_number state') =
          (if total_lines ?next \<le> line_number ?next then unat (line_number ?next)
           else min (unat (line_number ?next) + length rest) (unat (total_lines ?next)))"
      and frame: "total_lines state' = total_lines ?next"
           "pgm_entry_table state' = pgm_entry_table ?next"
      by blast
    have "feed_lines state (line # rest) = Some state'"
      by (simp add: line step run)
    moreover have "is_equal state' =
        (is_equal state \<and> list_all pair_equals (compared state (line # rest)))"
      by (simp add: verdict cmp)
    moreover have "unat (line_number state') =
        min (unat (line_number state) + length (line # rest)) (unat (total_lines state))"
      using index lt by (simp add: suc word_le_nat_alt)
    ultimately show ?thesis
      using False frame by simp
  qed
qed

lemma feed_lines_at_total:
  "total_lines state \<le> line_number state \<Longrightarrow> feed_lines state lines = Some state"
  by (induction lines) (auto simp: callback_at_total)

lemma callback_keeps_false:
  assumes "table_declared state" and "\<not> is_equal state"
  shows "\<exists>state'. string_comparator_callback state linebuf line_len = Some state'
           \<and> \<not> is_equal state' \<and> table_declared state'"
proof (cases "total_lines state \<le> line_number state")
  case True
  then show ?thesis using assms by (simp add: callback_at_total)
next
  case False
  then have "unat (line_number state) < unat (total_lines state)"
    by (simp add: not_le word_less_nat_alt)
  then have "unat (line_number state) < length (pgm_entry_table state)"
    using assms(1) by (simp add: table_declared_def)
  then show ?thesis
    using False assms
    by (simp add: string_comparator_callback_def Let_def table_declared_def)
qed

lemma feed_lines_keeps_false:
  assumes "table_declared state" and "\<not> is_equal state"
  shows "\<exists>state'. feed_lines state lines = Some state' \<and> \<not> is_equal state'"
  using assms
proof (induction lines arbitrary: state)
  case Nil
  then show ?case by simp
next
  case (Cons line rest)
  obtain linebuf line_len where line: "line = (linebuf, line_len)"
    by (cases line)
  from callback_keeps_false [OF Cons.prems, of linebuf line_len]
  obtain mid where step: "string_comparator_callback state linebuf line_len = Some mid"
    and mid: "\<not> is_equal mid" "table_declared mid"
    by blast
  from Cons.IH [OF mid(2) mid(1)] show ?case
    by (simp add: line step)
qed

text \<open>
  C3. Below the declared count, one call sets the verdict to the previous verdict and the
  equality of the supplied line with the reference line at the index (same length, same
  bytes), and moves the index on by exactly one, whatever the outcome. No call is skipped
  after a mismatch: the verdict at the end of a session is the starting verdict and the
  equality of every compared line with its reference line.
\<close>

theorem comparator_verdict_is_conjunction:
  assumes "table_fits state"
  shows "(line_number state < total_lines state \<longrightarrow>
            string_comparator_callback state linebuf line_len =
              Some (state\<lparr>is_equal :=
                      (is_equal state \<and>
                       line_equals (pgm_entry_table state ! unat (line_number state))
                         linebuf line_len),
                    line_number := line_number state + 1\<rparr>)
            \<and> unat (line_number state + 1) = unat (line_number state) + 1)
         \<and> (\<exists>state'. feed_lines state lines = Some state'
               \<and> is_equal state' =
                   (is_equal state \<and> list_all pair_equals (compared state lines)))"
proof -
  have "\<exists>state'. feed_lines state lines = Some state'
           \<and> is_equal state' = (is_equal state \<and> list_all pair_equals (compared state lines))"
    using feed_lines_result [OF assms, of lines] by blast
  then show ?thesis
    using assms by (simp add: callback_below_total next_line_number)
qed

theorem comparator_verdict_is_conjunction_witness:
  "table_fits session_start
   \<and> line_number session_start < total_lines session_start
   \<and> string_comparator_callback session_start [0x41, 0x41, 0x41] 3 =
       Some (session_start\<lparr>is_equal := True, line_number := 1\<rparr>)
   \<and> (\<exists>state'. feed_lines session_start
                   [([0x41, 0x41, 0x41], 3), ([0x42, 0x58], 2), ([0x43], 1)] = Some state'
          \<and> \<not> is_equal state')"
proof -
  let ?lines = "[([0x41, 0x41, 0x41], 3), ([0x42, 0x58], 2), ([0x43], 1)]
                  :: (uint8_t list \<times> uint16_t) list"
  let ?after = "session_start\<lparr>is_equal :=
                    (is_equal session_start \<and>
                     line_equals (pgm_entry_table session_start
                                    ! unat (line_number session_start)) [0x41, 0x41, 0x41] 3),
                  line_number := line_number session_start + 1\<rparr>"
  have fits: "table_fits session_start"
    by (simp add: session_start_def reference_table_def table_fits_def table_declared_def
        c_str_def)
  have below: "line_number session_start < total_lines session_start"
    by (simp add: session_start_def)
  have first: "?after = session_start\<lparr>is_equal := True, line_number := 1\<rparr>"
    by (simp add: session_start_def reference_table_def line_equals_def c_str_def)
  have second: "\<not> list_all pair_equals (compared session_start ?lines)"
    by (simp add: session_start_def reference_table_def compared_def line_equals_def
        c_str_def)
  note claim = comparator_verdict_is_conjunction [OF fits, of "[0x41, 0x41, 0x41]" 3 ?lines]
  from claim below have "string_comparator_callback session_start [0x41, 0x41, 0x41] 3
      = Some ?after"
    by blast
  then have step: "string_comparator_callback session_start [0x41, 0x41, 0x41] 3
      = Some (session_start\<lparr>is_equal := True, line_number := 1\<rparr>)"
    by (simp only: first)
  from claim second
  have "\<exists>state'. feed_lines session_start ?lines = Some state' \<and> \<not> is_equal state'"
    by blast
  with fits below step show ?thesis by blast
qed

text \<open>
  C4. Once the index has reached the declared count, a call returns the state as it was.
  A session that starts at index 0 with a true verdict and supplies fewer lines than are
  declared, each equal to its reference line, ends with a true verdict, and its index is
  the number of lines supplied.
\<close>

theorem comparator_stops_at_total:
  "(total_lines state \<le> line_number state \<longrightarrow>
      string_comparator_callback state linebuf line_len = Some state)
   \<and> (table_fits state \<and> is_equal state \<and> line_number state = 0
        \<and> length lines < unat (total_lines state)
        \<and> list_all pair_equals (zip (pgm_entry_table state) lines)
      \<longrightarrow> (\<exists>state'. feed_lines state lines = Some state' \<and> is_equal state'
              \<and> unat (line_number state') = length lines))"
proof -
  have "\<exists>state'. feed_lines state lines = Some state' \<and> is_equal state'
          \<and> unat (line_number state') = length lines"
    if fits: "table_fits state" and start: "is_equal state" "line_number state = 0"
      and short: "length lines < unat (total_lines state)"
      and same: "list_all pair_equals (zip (pgm_entry_table state) lines)"
  proof -
    let ?n = "unat (total_lines state)"
    have "zip (take ?n (pgm_entry_table state)) lines
            = zip (take ?n (pgm_entry_table state)) (take ?n lines)"
      using short by simp
    also have "\<dots> = take ?n (zip (pgm_entry_table state) lines)"
      by (simp add: take_zip)
    also have "\<dots> = zip (pgm_entry_table state) lines"
      using short by simp
    finally have "zip (take ?n (pgm_entry_table state)) lines
            = zip (pgm_entry_table state) lines" .
    then have "list_all pair_equals (compared state lines)"
      using same start by (simp add: compared_def)
    moreover have "\<not> total_lines state \<le> line_number state"
      using short start by (simp add: word_le_nat_alt)
    ultimately show ?thesis
      using feed_lines_result [OF fits, of lines] start short by auto
  qed
  then show ?thesis by (simp add: callback_at_total)
qed

theorem comparator_stops_at_total_witness:
  "total_lines (session_start\<lparr>line_number := 3\<rparr>)
     \<le> line_number (session_start\<lparr>line_number := 3\<rparr>)
   \<and> string_comparator_callback (session_start\<lparr>line_number := 3\<rparr>) [0x5A] 1 =
        Some (session_start\<lparr>line_number := 3\<rparr>)
   \<and> table_fits session_start \<and> is_equal session_start \<and> line_number session_start = 0
   \<and> length [([0x41, 0x41, 0x41], 3 :: uint16_t), ([0x42 :: uint8_t, 0x42], 2)]
        < unat (total_lines session_start)
   \<and> list_all pair_equals
        (zip (pgm_entry_table session_start) [([0x41, 0x41, 0x41], 3), ([0x42, 0x42], 2)])
   \<and> (\<exists>state'. feed_lines session_start [([0x41, 0x41, 0x41], 3), ([0x42, 0x42], 2)]
                   = Some state'
          \<and> is_equal state'
          \<and> unat (line_number state')
              = length [([0x41, 0x41, 0x41], 3 :: uint16_t), ([0x42 :: uint8_t, 0x42], 2)])"
proof -
  let ?lines = "[([0x41, 0x41, 0x41], 3), ([0x42, 0x42], 2)]
                  :: (uint8_t list \<times> uint16_t) list"
  let ?done = "session_start\<lparr>line_number := 3\<rparr>"
  have at_total: "total_lines ?done \<le> line_number ?done"
    by (simp add: session_start_def)
  have fits: "table_fits session_start"
    by (simp add: session_start_def reference_table_def table_fits_def table_declared_def
        c_str_def)
  have start: "is_equal session_start" "line_number session_start = 0"
    by (simp_all add: session_start_def)
  have short: "length ?lines < unat (total_lines session_start)"
    by (simp add: session_start_def)
  have same: "list_all pair_equals (zip (pgm_entry_table session_start) ?lines)"
    by (simp add: session_start_def reference_table_def line_equals_def c_str_def)
  from comparator_stops_at_total [of ?done "[0x5A]" 1 "[]"] at_total
  have noop: "string_comparator_callback ?done [0x5A] 1 = Some ?done"
    by blast
  from comparator_stops_at_total [of session_start "[]" 0 ?lines] fits start short same
  have "\<exists>state'. feed_lines session_start ?lines = Some state' \<and> is_equal state'
          \<and> unat (line_number state') = length ?lines"
    by blast
  with at_total noop fits start short same show ?thesis by blast
qed

text \<open>
  C10. A false verdict stays false: after one more call, and after any further lines,
  whatever bytes and lengths they carry.
\<close>

theorem comparator_false_is_absorbing:
  assumes "table_declared state" and "\<not> is_equal state"
  shows "(\<exists>state'. string_comparator_callback state linebuf line_len = Some state'
            \<and> \<not> is_equal state')
         \<and> (\<exists>state'. feed_lines state lines = Some state' \<and> \<not> is_equal state')"
  using callback_keeps_false [OF assms, of linebuf line_len]
    feed_lines_keeps_false [OF assms, of lines]
  by blast

theorem comparator_false_is_absorbing_witness:
  "table_declared (session_start\<lparr>is_equal := False\<rparr>)
   \<and> \<not> is_equal (session_start\<lparr>is_equal := False\<rparr>)
   \<and> (\<exists>state'. string_comparator_callback (session_start\<lparr>is_equal := False\<rparr>)
                   [0x41, 0x41, 0x41] 3 = Some state' \<and> \<not> is_equal state')
   \<and> (\<exists>state'. feed_lines (session_start\<lparr>is_equal := False\<rparr>)
                   [([0x41, 0x41, 0x41], 3), ([0x42, 0x42], 2), ([0x43], 1)] = Some state'
          \<and> \<not> is_equal state')"
proof -
  let ?failed = "session_start\<lparr>is_equal := False\<rparr>"
  have declared: "table_declared ?failed"
    by (simp add: session_start_def reference_table_def table_declared_def)
  have failed: "\<not> is_equal ?failed"
    by simp
  from comparator_false_is_absorbing [OF declared failed, of "[0x41, 0x41, 0x41]" 3
      "[([0x41, 0x41, 0x41], 3), ([0x42, 0x42], 2), ([0x43], 1)]"] declared failed
  show ?thesis by blast
qed

section \<open>The functions of the class, evaluated\<close>

subsection \<open>The functions in closed form\<close>

lemma println_if:
  "(if c then println s m else s) = s\<lparr>logger := logger s @ (if c then [m] else [])\<rparr>"
  by (simp add: println_def)

lemma replicate_11: "replicate 11 x = [x, x, x, x, x, x, x, x, x, x, x]"
  by (simp add: numeral_eq_Suc)

lemma setup_cycling_power_feature_eq:
  "setup_cycling_power_feature self =
     self\<lparr>gatt := (gatt self)\<lparr>calls := calls (gatt self) @
          [AddService CYCLING_POWER_SERVICE_UUID,
           AddCharacteristic CYCLING_POWER_FEATURE_CHAR_UUID GATT_CHARS_PROPERTIES_READ 4 4
             BLE_DATATYPE_AUTO,
           AddCharacteristic CYCLING_POWER_MEASUREMENT_CHAR_UUID
             (GATT_CHARS_PROPERTIES_READ OR GATT_CHARS_PROPERTIES_NOTIFY) 4 8
             BLE_DATATYPE_AUTO,
           AddCharacteristic SENSOR_LOCATION_CHAR_UUID GATT_CHARS_PROPERTIES_READ 1 1
             BLE_DATATYPE_AUTO]\<rparr>,
       logger := logger self
         @ (if handle_reply (gatt self) (length (calls (gatt self))) = 0
            then [''Could not add the service CYCLING_POWER_SERVICE_UUID''] else [])
         @ (if handle_reply (gatt self) (length (calls (gatt self)) + 1) = 0
            then [''Could not add Characteristic CYCLING_POWER_FEATURE_CHAR_UUID''] else [])
         @ (if handle_reply (gatt self) (length (calls (gatt self)) + 2) = 0
            then [''Could not add Characteristic CYCLING_POWER_MEASUREMENT_CHAR_UUID'']
            else [])
         @ (if handle_reply (gatt self) (length (calls (gatt self)) + 3) = 0
            then [''Could not add Characteristic CYCLING_POWER_MEASUREMENT_CHAR_UUID'']
            else []),
       cp_service_id := handle_reply (gatt self) (length (calls (gatt self))),
       cp_feature_id := handle_reply (gatt self) (length (calls (gatt self)) + 1),
       cp_measurement_id := handle_reply (gatt self) (length (calls (gatt self)) + 2),
       cp_sensor_location_id := handle_reply (gatt self) (length (calls (gatt self)) + 3)\<rparr>"
  by (simp add: setup_cycling_power_feature_def Let_def addService_def addCharacteristic_def
      println_if numeral_2_eq_2 numeral_3_eq_3 split del: if_split)

lemma setup_cycling_speed_cadence_feature_eq:
  "setup_cycling_speed_cadence_feature self =
     self\<lparr>gatt := (gatt self)\<lparr>calls := calls (gatt self) @
          [AddService CYCLING_SPEED_CADENCE_SERVICE_UUID,
           AddCharacteristic CSC_FEATURE_CHAR_UUID GATT_CHARS_PROPERTIES_READ 2 2
             BLE_DATATYPE_AUTO,
           AddCharacteristic CSC_MEASUREMENT_CHAR_UUID GATT_CHARS_PROPERTIES_NOTIFY 11 11
             BLE_DATATYPE_AUTO,
           AddCharacteristic SENSOR_LOCATION_CHAR_UUID GATT_CHARS_PROPERTIES_READ 1 1
             BLE_DATATYPE_AUTO,
           AddCharacteristic SC_CONTROL_POINT_CHAR_UUID
             (GATT_CHARS_PROPERTIES_WRITE OR GATT_CHARS_PROPERTIES_INDICATE) 1 5
             BLE_DATATYPE_AUTO]\<rparr>,
       logger := logger self
         @ (if handle_reply (gatt self) (length (calls (gatt self))) = 0
            then [''Could not add the service CYCLING_SPEED_CADENCE_SERVICE_UUID''] else [])
         @ (if handle_reply (gatt self) (length (calls (gatt self)) + 1) = 0
            then [''Could not add the characteristic CSC_FEATURE_CHAR_UUID''] else [])
         @ (if handle_reply (gatt self) (length (calls (gatt self)) + 2) = 0
            then [''Could not add the characteristic CSC_MEASUREMENT_CHAR_UUID''] else [])
         @ (if handle_reply (gatt self) (length (calls (gatt self)) + 3) = 0
            then [''Could not add the characteristic SENSOR_LOCATION_CHAR_UUID''] else [])
         @ (if handle_reply (gatt self) (length (calls (gatt self)) + 4) = 0
            then [''Could not add the characteristic SC_CONTROL_POINT_CHAR_UUID''] else []),
       csc_service_id := handle_reply (gatt self) (length (calls (gatt self))),
       csc_feature_id := handle_reply (gatt self) (length (calls (gatt self)) + 1),
       csc_measurement_id := handle_reply (gatt self) (length (calls (gatt self)) + 2),
       csc_sensor_location_id := handle_reply (gatt self) (length (calls (gatt self)) + 3),
       sc_control_point_id := handle_reply (gatt self) (length (calls (gatt self)) + 4)\<rparr>"
  by (simp add: setup_cycling_speed_cadence_feature_def Let_def addService_def
      addCharacteristic_def println_if numeral_2_eq_2 numeral_3_eq_3 eval_nat_numeral
      split del: if_split)

lemma update_eq:
  "update self cr lc wr lw pw en =
     (write_reply (gatt self) (length (calls (gatt self)))
        \<and> write_reply (gatt self) (length (calls (gatt self)) + 1),
      self\<lparr>gatt := (gatt self)\<lparr>calls := calls (gatt self) @
         [SetChar (cp_measurement_id self)
            (bytes_of_uint16 CPM_ACCUMULATED_ENERGY_PRESENT
               @ bytes_of_uint16 (if pw > 0x7FFF then 0x7FFF else pw)
               @ bytes_of_uint16 en),
          SetChar (csc_measurement_id self)
            ([CSCM_WHEEL_REV_DATA_PRESENT OR CSCM_CRANK_REV_DATA_PRESENT]
               @ bytes_of_uint32 wr
               @ bytes_of_uint16 (ucast ((lw * 128) div 125))
               @ bytes_of_uint16 cr
               @ bytes_of_uint16 (ucast ((lc * 128) div 125)))]\<rparr>\<rparr>)"
  by (simp add: update_def Let_def APPEND_BUFFER_def setChar_def bytes_of_uint16_def
      bytes_of_uint32_def replicate_11 handle_sc_control_point_def)

lemma issued_update:
  "issued self (snd (update self cr lc wr lw pw en)) =
     [SetChar (cp_measurement_id self) (power_payload self cr lc wr lw pw en),
      SetChar (csc_measurement_id self) (csc_payload self cr lc wr lw pw en)]"
  by (simp add: update_eq issued_def power_payload_def csc_payload_def)

lemma power_payload_eq:
  "power_payload self cr lc wr lw pw en =
     bytes_of_uint16 CPM_ACCUMULATED_ENERGY_PRESENT
       @ bytes_of_uint16 (if pw > 0x7FFF then 0x7FFF else pw)
       @ bytes_of_uint16 en"
  by (simp add: update_eq issued_def power_payload_def)

lemma csc_payload_eq:
  "csc_payload self cr lc wr lw pw en =
     [CSCM_WHEEL_REV_DATA_PRESENT OR CSCM_CRANK_REV_DATA_PRESENT]
       @ bytes_of_uint32 wr
       @ bytes_of_uint16 (ucast ((lw * 128) div 125))
       @ bytes_of_uint16 cr
       @ bytes_of_uint16 (ucast ((lc * 128) div 125))"
  by (simp add: update_eq issued_def csc_payload_def)

subsection \<open>Reading the fields back\<close>

lemma read_bytes_uint16:
  "ucast (ucast v :: uint8_t) OR push_bit 8 (ucast (ucast (drop_bit 8 v) :: uint8_t))
     = (v :: uint16_t)"
  by (rule bit_word_eqI) (auto simp: bit_simps)

lemma read_bytes_uint32:
  "ucast (ucast v :: uint8_t) OR push_bit 8 (ucast (ucast (drop_bit 8 v) :: uint8_t))
     OR push_bit 16 (ucast (ucast (drop_bit 16 v) :: uint8_t))
     OR push_bit 24 (ucast (ucast (drop_bit 24 v) :: uint8_t)) = (v :: uint32_t)"
proof (rule bit_word_eqI)
  fix n :: nat
  assume "n < LENGTH(32)"
  then have "n < 8 \<or> (8 \<le> n \<and> n < 16) \<or> (16 \<le> n \<and> n < 24) \<or> (24 \<le> n \<and> n < 32)"
    by auto
  then show "bit (ucast (ucast v :: uint8_t)
        OR push_bit 8 (ucast (ucast (drop_bit 8 v) :: uint8_t))
        OR push_bit 16 (ucast (ucast (drop_bit 16 v) :: uint8_t))
        OR push_bit 24 (ucast (ucast (drop_bit 24 v) :: uint8_t)) :: uint32_t) n = bit v n"
    by (elim disjE) (auto simp: bit_simps)
qed

lemma power_payload_fields:
  "length (power_payload self cr lc wr lw pw en) = 6"
  "read_uint16 (power_payload self cr lc wr lw pw en) 0 = CPM_ACCUMULATED_ENERGY_PRESENT"
  "read_uint16 (power_payload self cr lc wr lw pw en) 2
     = (if pw > 0x7FFF then 0x7FFF else pw)"
  "read_uint16 (power_payload self cr lc wr lw pw en) 4 = en"
  by (simp_all add: power_payload_eq bytes_of_uint16_def read_uint16_def read_bytes_uint16
     )

lemma csc_payload_fields:
  "length (csc_payload self cr lc wr lw pw en) = 11"
  "csc_payload self cr lc wr lw pw en ! 0
     = CSCM_WHEEL_REV_DATA_PRESENT OR CSCM_CRANK_REV_DATA_PRESENT"
  "read_uint32 (csc_payload self cr lc wr lw pw en) 1 = wr"
  "read_uint16 (csc_payload self cr lc wr lw pw en) 5 = ucast ((lw * 128) div 125)"
  "read_uint16 (csc_payload self cr lc wr lw pw en) 7 = cr"
  "read_uint16 (csc_payload self cr lc wr lw pw en) 9 = ucast ((lc * 128) div 125)"
  by (simp_all add: csc_payload_eq bytes_of_uint16_def bytes_of_uint32_def read_uint16_def
      read_uint32_def read_bytes_uint16 read_bytes_uint32)


subsection \<open>The event time\<close>

lemma event_time_value:
  "unat (ucast ((t * 128) div 125 :: uint32_t) :: uint16_t)
     = (unat t * 128 mod 2 ^ 32) div 125 mod 2 ^ 16"
proof -
  have "unat (ucast ((t * 128) div 125 :: uint32_t) :: uint16_t)
          = unat ((t * 128) div 125) mod 2 ^ 16"
    by (simp add: unsigned_ucast_eq take_bit_eq_mod)
  also have "unat ((t * 128) div 125) = unat (t * 128) div unat (125 :: uint32_t)"
    by (rule unat_div)
  also have "unat (t * 128) = unat t * unat (128 :: uint32_t) mod 2 ^ LENGTH(32)"
    by (rule unat_word_ariths)
  finally show ?thesis by simp
qed

lemma event_time_exact_below_wrap:
  assumes "unat t < 33554432"
  shows "unat (ucast ((t * 128) div 125 :: uint32_t) :: uint16_t)
     = (unat t * 128 div 125) mod 65536"
proof -
  have "unat t * 128 < 4294967296" using assms by linarith
  then have "unat t * 128 mod 2 ^ 32 = unat t * 128" by simp
  then show ?thesis by (simp only: event_time_value) simp
qed

section \<open>The update cycle\<close>

text \<open>
  C1. The first write of an update cycle goes to the Power measurement characteristic.
  The power field of its payload (bytes 2 and 3), read as an unsigned number, is the
  smaller of the power input and 32767, for every 16-bit input; an input of at most 32767
  is written as it is.
\<close>

theorem power_field_is_clamped:
  "issued self (snd (update self cr lc wr lw pw en)) ! 0
     = SetChar (cp_measurement_id self) (power_payload self cr lc wr lw pw en)
   \<and> unat (read_uint16 (power_payload self cr lc wr lw pw en) 2) = min (unat pw) 32767
   \<and> (pw \<le> 0x7FFF \<longrightarrow> read_uint16 (power_payload self cr lc wr lw pw en) 2 = pw)"
proof -
  have "unat (if pw > 0x7FFF then 0x7FFF else pw) = min (unat pw) 32767"
    by (simp add: word_less_nat_alt)
  then show ?thesis
    by (simp add: issued_update power_payload_fields not_less [symmetric])
qed

theorem power_field_is_clamped_witness:
  "(300 :: uint16_t) \<le> 0x7FFF
   \<and> read_uint16 (power_payload (powered_on (\<lambda>k. 1) (\<lambda>k. True)) 10 1000 500 2000 300 50) 2
       = 300
   \<and> unat (read_uint16
        (power_payload (powered_on (\<lambda>k. 1) (\<lambda>k. True)) 10 1000 500 2000 40000 50) 2)
       = 32767"
proof -
  have small: "(300 :: uint16_t) \<le> 0x7FFF" by simp
  have large: "min (unat (40000 :: uint16_t)) 32767 = 32767" by simp
  from power_field_is_clamped [of "powered_on (\<lambda>k. 1) (\<lambda>k. True)" 10 1000 500 2000 300 50]
    power_field_is_clamped [of "powered_on (\<lambda>k. 1) (\<lambda>k. True)" 10 1000 500 2000 40000 50]
    small large
  show ?thesis by presburger
qed

text \<open>
  C2, at the input where the code leaves the claim. The timestamp 33554432 ms is
  \<open>2 ^ 25\<close>: its product with 128 is \<open>2 ^ 32\<close>, which a \<^verbatim>\<open>uint32_t\<close> holds as 0, so the
  wheel and the crank event-time fields are 0, while \<open>(t * 128 / 125) mod 65536\<close> over the
  unbounded integers is 18874.
\<close>

theorem event_time_product_wraps:
  "read_uint16 (csc_payload self cr lc wr 33554432 pw en) 5 = 0
   \<and> read_uint16 (csc_payload self cr 33554432 wr lw pw en) 9 = 0
   \<and> (33554432 * 128 div 125) mod 65536 = (18874 :: nat)"
  by (simp add: csc_payload_fields)

text \<open>
  Below \<open>2 ^ 25\<close> ms the product does not wrap, and both event-time fields are
  \<open>(t * 128 / 125) mod 65536\<close> with the division taken over the natural numbers.
\<close>

lemma event_time_fields_below_wrap:
  "unat lw < 33554432 \<Longrightarrow>
     unat (read_uint16 (csc_payload self cr lc wr lw pw en) 5)
       = (unat lw * 128 div 125) mod 65536"
  "unat lc < 33554432 \<Longrightarrow>
     unat (read_uint16 (csc_payload self cr lc wr lw pw en) 9)
       = (unat lc * 128 div 125) mod 65536"
  by (simp_all only: csc_payload_fields event_time_exact_below_wrap)

text \<open>
  C5. An update cycle returns true exactly when the transport reports success for both
  writes, whatever the two reports are. Both writes are made in every case: first the
  Power measurement, then the Speed/Cadence measurement. The function has no other
  result, so encoding cannot fail.
\<close>

theorem update_succeeds_iff_both_writes_do:
  "fst (update (answering_writes first second self) cr lc wr lw pw en) = (first \<and> second)
   \<and> fst (update self cr lc wr lw pw en)
       = (write_reply (gatt self) (length (calls (gatt self)))
            \<and> write_reply (gatt self) (Suc (length (calls (gatt self)))))
   \<and> issued (answering_writes first second self)
         (snd (update (answering_writes first second self) cr lc wr lw pw en))
       = [SetChar (cp_measurement_id self) (power_payload self cr lc wr lw pw en),
          SetChar (csc_measurement_id self) (csc_payload self cr lc wr lw pw en)]"
  by (simp add: update_eq answering_writes_def issued_def power_payload_eq csc_payload_eq)

text \<open>
  C7. The Power payload has 6 bytes. Read as little-endian 16-bit fields, it gives back
  the flags word with the accumulated-energy-present bit and no other bit, the clamped
  power, and the energy as supplied. For power 300 and energy 50 the fields are 0x0020,
  300 and 50.
\<close>

theorem power_payload_round_trip:
  "length (power_payload self cr lc wr lw pw en) = 6
   \<and> read_uint16 (power_payload self cr lc wr lw pw en) 0 = CPM_ACCUMULATED_ENERGY_PRESENT
   \<and> CPM_ACCUMULATED_ENERGY_PRESENT = push_bit 5 1
   \<and> read_uint16 (power_payload self cr lc wr lw pw en) 2 = min pw 0x7FFF
   \<and> read_uint16 (power_payload self cr lc wr lw pw en) 4 = en
   \<and> read_uint16 (power_payload self cr lc wr lw 300 50) 0 = 0x0020
   \<and> read_uint16 (power_payload self cr lc wr lw 300 50) 2 = 300
   \<and> read_uint16 (power_payload self cr lc wr lw 300 50) 4 = 50"
  by (simp add: power_payload_fields CPM_ACCUMULATED_ENERGY_PRESENT_def min_def
      not_less [symmetric])

text \<open>
  C8, at a snapshot where the code leaves the claim: crank revolutions 10, last crank
  event at 33555432 ms (\<open>2 ^ 25 + 1000\<close>), wheel revolutions 500, last wheel event at
  2000 ms. The crank event-time field is 1024, while \<open>(t * 128 / 125) mod 65536\<close> is 19898
  for this timestamp. The other fields are read back as supplied.
\<close>

theorem crank_event_time_after_wrap:
  "read_uint16 (csc_payload self 10 33555432 500 2000 pw en) 9 = 1024
   \<and> (33555432 * 128 div 125) mod 65536 = (19898 :: nat)
   \<and> csc_payload self 10 33555432 500 2000 pw en ! 0 = 0x03
   \<and> read_uint32 (csc_payload self 10 33555432 500 2000 pw en) 1 = 500
   \<and> read_uint16 (csc_payload self 10 33555432 500 2000 pw en) 5 = 2048
   \<and> read_uint16 (csc_payload self 10 33555432 500 2000 pw en) 7 = 10"
  by (simp only: csc_payload_fields)
    (simp add: CSCM_WHEEL_REV_DATA_PRESENT_def CSCM_CRANK_REV_DATA_PRESENT_def)

text \<open>
  What does hold of the Speed/Cadence payload for every snapshot: it has 11 bytes, its
  flags byte has the wheel and crank bits and no other, the revolution counts are read
  back as supplied, and each event time is the 16-bit narrowing of the 32-bit value
  \<open>(t * 128 mod 2 ^ 32) / 125\<close>. The spec's scenario is below the wrap.
\<close>

lemma csc_payload_round_trip:
  "length (csc_payload self cr lc wr lw pw en) = 11"
  "csc_payload self cr lc wr lw pw en ! 0 = 0x03"
  "read_uint32 (csc_payload self cr lc wr lw pw en) 1 = wr"
  "unat (read_uint16 (csc_payload self cr lc wr lw pw en) 5)
     = (unat lw * 128 mod 2 ^ 32) div 125 mod 2 ^ 16"
  "read_uint16 (csc_payload self cr lc wr lw pw en) 7 = cr"
  "unat (read_uint16 (csc_payload self cr lc wr lw pw en) 9)
     = (unat lc * 128 mod 2 ^ 32) div 125 mod 2 ^ 16"
  by (simp_all only: csc_payload_fields event_time_value)
    (simp add: CSCM_WHEEL_REV_DATA_PRESENT_def CSCM_CRANK_REV_DATA_PRESENT_def)

lemma csc_payload_scenario:
  "csc_payload self 10 1000 500 2000 300 50 ! 0 = 0x03"
  "read_uint32 (csc_payload self 10 1000 500 2000 300 50) 1 = 500"
  "read_uint16 (csc_payload self 10 1000 500 2000 300 50) 5 = 2048"
  "read_uint16 (csc_payload self 10 1000 500 2000 300 50) 7 = 10"
  "read_uint16 (csc_payload self 10 1000 500 2000 300 50) 9 = 1024"
  by (simp_all only: csc_payload_fields)
    (simp_all add: CSCM_WHEEL_REV_DATA_PRESENT_def CSCM_CRANK_REV_DATA_PRESENT_def)

section \<open>Bring-up\<close>

lemma granted_values:
  "granted GATT_CHARS_PROPERTIES_READ = [Read]"
  "granted (GATT_CHARS_PROPERTIES_READ OR GATT_CHARS_PROPERTIES_NOTIFY) = [Read, Notify]"
  "granted GATT_CHARS_PROPERTIES_NOTIFY = [Notify]"
  "granted (GATT_CHARS_PROPERTIES_WRITE OR GATT_CHARS_PROPERTIES_INDICATE) = [Write, Indicate]"
  by (simp_all add: granted_def GATT_CHARS_PROPERTIES_BROADCAST_def
      GATT_CHARS_PROPERTIES_READ_def GATT_CHARS_PROPERTIES_WRITE_WO_RESP_def
      GATT_CHARS_PROPERTIES_WRITE_def GATT_CHARS_PROPERTIES_NOTIFY_def
      GATT_CHARS_PROPERTIES_INDICATE_def)

text \<open>
  C9. Whatever the transport answers, \<^verbatim>\<open>setup_cycling_power_feature\<close> declares the
  service, the Feature characteristic (read, length 4 to 4), the Measurement
  characteristic (read and notify, length 4 to 8) and the Sensor Location characteristic
  (read, length 1 to 1), in this order; \<^verbatim>\<open>setup_cycling_speed_cadence_feature\<close>
  declares the service, the Feature characteristic (read, 2 to 2), the Measurement
  characteristic (notify, 11 to 11), the Sensor Location characteristic (read, 1 to 1)
  and the Control Point characteristic (write and indicate, 1 to 5), in this order; and
  run one after the other, as \<^verbatim>\<open>initialize\<close> does (lines 122-123), they make these nine
  calls and no other.
\<close>

theorem declarations_in_order:
  "issued self (setup_cycling_power_feature self) =
     [AddService CYCLING_POWER_SERVICE_UUID,
      AddCharacteristic CYCLING_POWER_FEATURE_CHAR_UUID GATT_CHARS_PROPERTIES_READ 4 4
        BLE_DATATYPE_AUTO,
      AddCharacteristic CYCLING_POWER_MEASUREMENT_CHAR_UUID
        (GATT_CHARS_PROPERTIES_READ OR GATT_CHARS_PROPERTIES_NOTIFY) 4 8 BLE_DATATYPE_AUTO,
      AddCharacteristic SENSOR_LOCATION_CHAR_UUID GATT_CHARS_PROPERTIES_READ 1 1
        BLE_DATATYPE_AUTO]
   \<and> issued self (setup_cycling_speed_cadence_feature self) =
     [AddService CYCLING_SPEED_CADENCE_SERVICE_UUID,
      AddCharacteristic CSC_FEATURE_CHAR_UUID GATT_CHARS_PROPERTIES_READ 2 2
        BLE_DATATYPE_AUTO,
      AddCharacteristic CSC_MEASUREMENT_CHAR_UUID GATT_CHARS_PROPERTIES_NOTIFY 11 11
        BLE_DATATYPE_AUTO,
      AddCharacteristic SENSOR_LOCATION_CHAR_UUID GATT_CHARS_PROPERTIES_READ 1 1
        BLE_DATATYPE_AUTO,
      AddCharacteristic SC_CONTROL_POINT_CHAR_UUID
        (GATT_CHARS_PROPERTIES_WRITE OR GATT_CHARS_PROPERTIES_INDICATE) 1 5
        BLE_DATATYPE_AUTO]
   \<and> issued self (setup_cycling_speed_cadence_feature (setup_cycling_power_feature self)) =
     issued self (setup_cycling_power_feature self)
       @ issued self (setup_cycling_speed_cadence_feature self)
   \<and> granted GATT_CHARS_PROPERTIES_READ = [Read]
   \<and> granted (GATT_CHARS_PROPERTIES_READ OR GATT_CHARS_PROPERTIES_NOTIFY) = [Read, Notify]
   \<and> granted GATT_CHARS_PROPERTIES_NOTIFY = [Notify]
   \<and> granted (GATT_CHARS_PROPERTIES_WRITE OR GATT_CHARS_PROPERTIES_INDICATE)
       = [Write, Indicate]"
proof -
  have power: "issued self (setup_cycling_power_feature self) =
     [AddService CYCLING_POWER_SERVICE_UUID,
      AddCharacteristic CYCLING_POWER_FEATURE_CHAR_UUID GATT_CHARS_PROPERTIES_READ 4 4
        BLE_DATATYPE_AUTO,
      AddCharacteristic CYCLING_POWER_MEASUREMENT_CHAR_UUID
        (GATT_CHARS_PROPERTIES_READ OR GATT_CHARS_PROPERTIES_NOTIFY) 4 8 BLE_DATATYPE_AUTO,
      AddCharacteristic SENSOR_LOCATION_CHAR_UUID GATT_CHARS_PROPERTIES_READ 1 1
        BLE_DATATYPE_AUTO]"
    by (simp add: issued_def setup_cycling_power_feature_eq)
  have speed: "issued self (setup_cycling_speed_cadence_feature self) =
     [AddService CYCLING_SPEED_CADENCE_SERVICE_UUID,
      AddCharacteristic CSC_FEATURE_CHAR_UUID GATT_CHARS_PROPERTIES_READ 2 2
        BLE_DATATYPE_AUTO,
      AddCharacteristic CSC_MEASUREMENT_CHAR_UUID GATT_CHARS_PROPERTIES_NOTIFY 11 11
        BLE_DATATYPE_AUTO,
      AddCharacteristic SENSOR_LOCATION_CHAR_UUID GATT_CHARS_PROPERTIES_READ 1 1
        BLE_DATATYPE_AUTO,
      AddCharacteristic SC_CONTROL_POINT_CHAR_UUID
        (GATT_CHARS_PROPERTIES_WRITE OR GATT_CHARS_PROPERTIES_INDICATE) 1 5
        BLE_DATATYPE_AUTO]"
    by (simp add: issued_def setup_cycling_speed_cadence_feature_eq)
  have both: "issued self
        (setup_cycling_speed_cadence_feature (setup_cycling_power_feature self)) =
      issued self (setup_cycling_power_feature self)
        @ issued self (setup_cycling_speed_cadence_feature self)"
    unfolding power speed
    by (simp add: issued_def setup_cycling_speed_cadence_feature_eq
        setup_cycling_power_feature_eq)
  from power speed both granted_values show ?thesis
    by (intro conjI)
qed


text \<open>
  What holds of bring-up whatever the transport answers: every slot holds the answer to
  its own declaration, so a zero answer leaves a zero handle and changes no other slot,
  and the log grows by one line for each zero answer, in the order of the declarations.
  All nine declarations are made whatever the answers are: no answer stops the sequence.
\<close>

lemma bring_up_handles:
  "cp_service_id (setup_cycling_speed_cadence_feature (setup_cycling_power_feature self))
     = handle_reply (gatt self) (length (calls (gatt self)))"
  "cp_feature_id (setup_cycling_speed_cadence_feature (setup_cycling_power_feature self))
     = handle_reply (gatt self) (length (calls (gatt self)) + 1)"
  "cp_measurement_id (setup_cycling_speed_cadence_feature (setup_cycling_power_feature self))
     = handle_reply (gatt self) (length (calls (gatt self)) + 2)"
  "cp_sensor_location_id
       (setup_cycling_speed_cadence_feature (setup_cycling_power_feature self))
     = handle_reply (gatt self) (length (calls (gatt self)) + 3)"
  "csc_service_id (setup_cycling_speed_cadence_feature (setup_cycling_power_feature self))
     = handle_reply (gatt self) (length (calls (gatt self)) + 4)"
  "csc_feature_id (setup_cycling_speed_cadence_feature (setup_cycling_power_feature self))
     = handle_reply (gatt self) (length (calls (gatt self)) + 5)"
  "csc_measurement_id
       (setup_cycling_speed_cadence_feature (setup_cycling_power_feature self))
     = handle_reply (gatt self) (length (calls (gatt self)) + 6)"
  "csc_sensor_location_id
       (setup_cycling_speed_cadence_feature (setup_cycling_power_feature self))
     = handle_reply (gatt self) (length (calls (gatt self)) + 7)"
  "sc_control_point_id
       (setup_cycling_speed_cadence_feature (setup_cycling_power_feature self))
     = handle_reply (gatt self) (length (calls (gatt self)) + 8)"
  by (simp_all add: setup_cycling_speed_cadence_feature_eq setup_cycling_power_feature_eq
      eval_nat_numeral split del: if_split)

lemma bring_up_log:
  "logger (setup_cycling_speed_cadence_feature (setup_cycling_power_feature self)) =
     logger self
       @ (if handle_reply (gatt self) (length (calls (gatt self))) = 0
          then [''Could not add the service CYCLING_POWER_SERVICE_UUID''] else [])
       @ (if handle_reply (gatt self) (length (calls (gatt self)) + 1) = 0
          then [''Could not add Characteristic CYCLING_POWER_FEATURE_CHAR_UUID''] else [])
       @ (if handle_reply (gatt self) (length (calls (gatt self)) + 2) = 0
          then [''Could not add Characteristic CYCLING_POWER_MEASUREMENT_CHAR_UUID'']
          else [])
       @ (if handle_reply (gatt self) (length (calls (gatt self)) + 3) = 0
          then [''Could not add Characteristic CYCLING_POWER_MEASUREMENT_CHAR_UUID'']
          else [])
       @ (if handle_reply (gatt self) (length (calls (gatt self)) + 4) = 0
          then [''Could not add the service CYCLING_SPEED_CADENCE_SERVICE_UUID''] else [])
       @ (if handle_reply (gatt self) (length (calls (gatt self)) + 5) = 0
          then [''Could not add the characteristic CSC_FEATURE_CHAR_UUID''] else [])
       @ (if handle_reply (gatt self) (length (calls (gatt self)) + 6) = 0
          then [''Could not add the characteristic CSC_MEASUREMENT_CHAR_UUID''] else [])
       @ (if handle_reply (gatt self) (length (calls (gatt self)) + 7) = 0
          then [''Could not add the characteristic SENSOR_LOCATION_CHAR_UUID''] else [])
       @ (if handle_reply (gatt self) (length (calls (gatt self)) + 8) = 0
          then [''Could not add the characteristic SC_CONTROL_POINT_CHAR_UUID''] else [])"
  by (simp add: setup_cycling_speed_cadence_feature_eq setup_cycling_power_feature_eq
      eval_nat_numeral split del: if_split)

lemma bring_up_calls:
  "calls (gatt (setup_cycling_speed_cadence_feature (setup_cycling_power_feature self))) =
     calls (gatt self) @
       [AddService CYCLING_POWER_SERVICE_UUID,
        AddCharacteristic CYCLING_POWER_FEATURE_CHAR_UUID GATT_CHARS_PROPERTIES_READ 4 4
          BLE_DATATYPE_AUTO,
        AddCharacteristic CYCLING_POWER_MEASUREMENT_CHAR_UUID
          (GATT_CHARS_PROPERTIES_READ OR GATT_CHARS_PROPERTIES_NOTIFY) 4 8 BLE_DATATYPE_AUTO,
        AddCharacteristic SENSOR_LOCATION_CHAR_UUID GATT_CHARS_PROPERTIES_READ 1 1
          BLE_DATATYPE_AUTO,
        AddService CYCLING_SPEED_CADENCE_SERVICE_UUID,
        AddCharacteristic CSC_FEATURE_CHAR_UUID GATT_CHARS_PROPERTIES_READ 2 2
          BLE_DATATYPE_AUTO,
        AddCharacteristic CSC_MEASUREMENT_CHAR_UUID GATT_CHARS_PROPERTIES_NOTIFY 11 11
          BLE_DATATYPE_AUTO,
        AddCharacteristic SENSOR_LOCATION_CHAR_UUID GATT_CHARS_PROPERTIES_READ 1 1
          BLE_DATATYPE_AUTO,
        AddCharacteristic SC_CONTROL_POINT_CHAR_UUID
          (GATT_CHARS_PROPERTIES_WRITE OR GATT_CHARS_PROPERTIES_INDICATE) 1 5
          BLE_DATATYPE_AUTO]"
  by (simp add: setup_cycling_speed_cadence_feature_eq setup_cycling_power_feature_eq
      split del: if_split)

text \<open>
  C6, at the input where the code leaves the claim. The transport answers the fourth
  declaration, the Sensor Location characteristic of the Power profile, with the handle 0
  and every other declaration with the handle 1. All nine declarations are made and only
  the Sensor Location slot is 0, but the one line that is logged names the Measurement
  characteristic, whose declaration succeeded (line 200 of the source repeats the message
  of line 193). It is the same log as when only the Measurement declaration fails.
\<close>

theorem sensor_location_failure_names_measurement:
  "issued (powered_on (\<lambda>k. if k = 3 then 0 else 1) writes)
       (setup_cycling_speed_cadence_feature
          (setup_cycling_power_feature (powered_on (\<lambda>k. if k = 3 then 0 else 1) writes))) ! 3
     = AddCharacteristic SENSOR_LOCATION_CHAR_UUID GATT_CHARS_PROPERTIES_READ 1 1
         BLE_DATATYPE_AUTO
   \<and> length (issued (powered_on (\<lambda>k. if k = 3 then 0 else 1) writes)
       (setup_cycling_speed_cadence_feature
          (setup_cycling_power_feature (powered_on (\<lambda>k. if k = 3 then 0 else 1) writes))))
     = 9
   \<and> cp_sensor_location_id
       (setup_cycling_speed_cadence_feature
          (setup_cycling_power_feature (powered_on (\<lambda>k. if k = 3 then 0 else 1) writes)))
     = 0
   \<and> cp_measurement_id
       (setup_cycling_speed_cadence_feature
          (setup_cycling_power_feature (powered_on (\<lambda>k. if k = 3 then 0 else 1) writes)))
     = 1
   \<and> logger
       (setup_cycling_speed_cadence_feature
          (setup_cycling_power_feature (powered_on (\<lambda>k. if k = 3 then 0 else 1) writes)))
     = [''Could not add Characteristic CYCLING_POWER_MEASUREMENT_CHAR_UUID'']
   \<and> logger
       (setup_cycling_speed_cadence_feature
          (setup_cycling_power_feature (powered_on (\<lambda>k. if k = 2 then 0 else 1) writes)))
     = [''Could not add Characteristic CYCLING_POWER_MEASUREMENT_CHAR_UUID'']"
  by (simp add: bring_up_handles bring_up_log issued_def bring_up_calls powered_on_def)

end
